theory Spec2Isabelle
  imports Complex_Main "HOL-Library.Char_ord" "HOL-Library.List_Lexorder" "HOL-Library.Multiset"
begin

section \<open>PyDeck-CLI: data model\<close>

text \<open>
  The repository holds two scripts: \<^verbatim>\<open>pydeckCLI.py\<close> (reads a GeoJSON
  FeatureCollection, derives a view and writes an HTML map) and
  \<^verbatim>\<open>show_properties.py\<close> (lists the property names of the features).

  Numbers: Python floats are idealised as \<^typ>\<open>real\<close>; rounding, infinities and NaN
  are not modelled. Every \<^verbatim>\<open>raise\<close> that the modelled lines can perform is an
  \<open>Inl\<close> value of the result.
\<close>

datatype error =
    FileNotFoundError
  | JSONDecodeError
  | ValueError
  | ZeroDivisionError
  | EmptyInputError
  | DegenerateBoundsError

text \<open>
  \<open>FileNotFoundError\<close>, \<open>JSONDecodeError\<close>, \<open>ValueError\<close> and \<open>ZeroDivisionError\<close>
  are the Python exceptions the modelled lines raise. \<open>EmptyInputError\<close> and
  \<open>DegenerateBoundsError\<close> are error kinds that only the specification names; they are
  constructors here so that statements about them can be written down, and no definition
  below ever returns them.
\<close>

type_synonym bbox = "real \<times> real \<times> real \<times> real"
  \<comment> \<open>\<open>(minx, miny, maxx, maxy)\<close>, the tuple \<^verbatim>\<open>geom.bounds\<close>\<close>

type_synonym point = "real \<times> real"
  \<comment> \<open>\<open>(x, y)\<close> of a shapely \<^verbatim>\<open>Point\<close>\<close>

text \<open>
  \<^verbatim>\<open>shape(feature['geometry'])\<close> is computed by the shapely library; the scripts read
  only its \<^verbatim>\<open>bounds\<close> and \<^verbatim>\<open>centroid\<close>, so a geometry is the pair of the two.
\<close>

record geom =
  bounds :: bbox
  centroid :: point

datatype json =
    JNull
  | JBool bool
  | JNum real
  | JStr string
  | JList "json list"
  | JDict "(string \<times> json) list"

text \<open>A feature of the collection: its geometry and its \<^verbatim>\<open>properties\<close> dictionary
  (keys with their values, in insertion order). Features are taken as the input format
  has them, with both members present and neither of them \<^verbatim>\<open>null\<close>; the
  \<^verbatim>\<open>KeyError\<close>, \<^verbatim>\<open>AttributeError\<close> and shapely errors of malformed features are
  outside the model.\<close>

record feature =
  geometry :: geom
  properties :: "(string \<times> json) list"

section \<open>\<^verbatim>\<open>pydeckCLI.py\<close>: zoom level\<close>

text \<open>
  \<^verbatim>\<open>get_zoom_level(bounds, width, height)\<close>, lines 8 to 22. The two divisions by
  \<^verbatim>\<open>width\<close> and \<^verbatim>\<open>height\<close> raise \<^verbatim>\<open>ZeroDivisionError\<close> on a zero divisor, in
  the order of the source lines; \<^verbatim>\<open>2 * math.pi\<close> and \<^verbatim>\<open>math.log(2)\<close> are never zero.
  Python's two-argument \<^verbatim>\<open>min\<close> agrees with \<^const>\<open>min\<close> on a linear order.
\<close>

definition get_zoom_level :: "bbox \<Rightarrow> real \<Rightarrow> real \<Rightarrow> error + real" where
  "get_zoom_level bounds width height =
     (case bounds of (minx, miny, maxx, maxy) \<Rightarrow>
        let xdiff = maxx - minx;
            ydiff = maxy - miny
        in if width = 0 then Inl ZeroDivisionError
           else let xzoom = -1 * (xdiff / width) / (2 * pi) * 360 / ln 2
                in if height = 0 then Inl ZeroDivisionError
                   else let yzoom = -1 * (ydiff / height) / (2 * pi) * 360 / ln 2
                        in Inr (min xzoom yzoom))"
  for bounds width height

section \<open>\<^verbatim>\<open>pydeckCLI.py\<close>: bounding box and centroid of the features\<close>

text \<open>
  Python's one-argument \<^verbatim>\<open>min\<close> and \<^verbatim>\<open>max\<close> over an iterable: \<^verbatim>\<open>ValueError\<close> on
  an empty one; otherwise the first item is the candidate and every later item that is
  strictly smaller (strictly larger) replaces it.
\<close>

fun min_loop :: "real \<Rightarrow> real list \<Rightarrow> real" where
  "min_loop m [] = m"
| "min_loop m (x # xs) = min_loop (if x < m then x else m) xs"

fun max_loop :: "real \<Rightarrow> real list \<Rightarrow> real" where
  "max_loop m [] = m"
| "max_loop m (x # xs) = max_loop (if m < x then x else m) xs"

definition min_py :: "real list \<Rightarrow> error + real" where
  "min_py xs = (case xs of [] \<Rightarrow> Inl ValueError | x # rest \<Rightarrow> Inr (min_loop x rest))"

definition max_py :: "real list \<Rightarrow> error + real" where
  "max_py xs = (case xs of [] \<Rightarrow> Inl ValueError | x # rest \<Rightarrow> Inr (max_loop x rest))"

text \<open>\<^verbatim>\<open>sum(...)\<close> starts from 0 and adds the items from left to right;
  \<^verbatim>\<open>s / len(...)\<close> raises \<^verbatim>\<open>ZeroDivisionError\<close> when the length is 0.\<close>

definition sum_py :: "real list \<Rightarrow> real" where
  "sum_py xs = foldl (+) 0 xs"

definition div_py :: "real \<Rightarrow> nat \<Rightarrow> error + real" where
  "div_py s n = (if n = 0 then Inl ZeroDivisionError else Inr (s / real n))"

text \<open>Lines 43 to 47: the total bounding box, one \<^verbatim>\<open>min\<close> or \<^verbatim>\<open>max\<close> per
  component, in the order of the source lines.\<close>

definition total_bounds :: "bbox list \<Rightarrow> error + bbox" where
  "total_bounds bounds_list =
     (case min_py (map (\<lambda>(b0, b1, b2, b3). b0) bounds_list) of
        Inl e \<Rightarrow> Inl e
      | Inr minx \<Rightarrow>
     (case min_py (map (\<lambda>(b0, b1, b2, b3). b1) bounds_list) of
        Inl e \<Rightarrow> Inl e
      | Inr miny \<Rightarrow>
     (case max_py (map (\<lambda>(b0, b1, b2, b3). b2) bounds_list) of
        Inl e \<Rightarrow> Inl e
      | Inr maxx \<Rightarrow>
     (case max_py (map (\<lambda>(b0, b1, b2, b3). b3) bounds_list) of
        Inl e \<Rightarrow> Inl e
      | Inr maxy \<Rightarrow> Inr (minx, miny, maxx, maxy)))))"

text \<open>Lines 49 to 51: the point whose coordinates are the sums of the centroids'
  coordinates divided by the number of centroids.\<close>

definition mean_centroid :: "point list \<Rightarrow> error + point" where
  "mean_centroid centroid_list =
     (case div_py (sum_py (map fst centroid_list)) (length centroid_list) of
        Inl e \<Rightarrow> Inl e
      | Inr x \<Rightarrow>
     (case div_py (sum_py (map snd centroid_list)) (length centroid_list) of
        Inl e \<Rightarrow> Inl e
      | Inr y \<Rightarrow> Inr (x, y)))"

text \<open>Lines 34 to 53 of \<^verbatim>\<open>create_map\<close>, on the shaped geometries of the features: the
  loop collects \<^verbatim>\<open>bounds_list\<close> and \<^verbatim>\<open>centroid_list\<close>, then the total bounding box
  is computed, then the centroid.\<close>

definition aggregate :: "geom list \<Rightarrow> error + (bbox \<times> point)" where
  "aggregate geoms =
     (let bounds_list = map bounds geoms;
          centroid_list = map centroid geoms
      in case total_bounds bounds_list of
           Inl e \<Rightarrow> Inl e
         | Inr b \<Rightarrow>
        (case mean_centroid centroid_list of
           Inl e \<Rightarrow> Inl e
         | Inr c \<Rightarrow> Inr (b, c)))"

section \<open>\<^verbatim>\<open>pydeckCLI.py\<close>: the map and the command line\<close>

text \<open>The keyword arguments of \<^verbatim>\<open>pdk.Layer\<close>, \<^verbatim>\<open>pdk.ViewState\<close> and
  \<^verbatim>\<open>pdk.Deck\<close> as the script passes them; pydeck itself is outside the model.\<close>

record layer =
  type :: "string option"
  data :: "feature list"
  get_position :: "string list"
  get_elevation :: string
  get_fill_color :: "int list"
  get_line_color :: "int list"
  auto_highlight :: bool
  elevation_scale :: real
  pickable :: bool
  elevation_range :: "int list"
  stroked :: bool
  filled :: bool
  wireframe :: bool
  extruded :: bool
  coverage :: real

record view_state =
  longitude :: real
  latitude :: real
  zoom :: real
  min_zoom :: real
  max_zoom :: real
  pitch :: real
  bearing :: real

record deck =
  layers :: "layer list"
  initial_view_state :: view_state

text \<open>
  Files. A path holds a GeoJSON FeatureCollection (given by its \<^verbatim>\<open>features\<close>) or an
  HTML document written by \<^verbatim>\<open>Deck.to_html\<close> (given by the deck it renders); other
  contents are not modelled. Opening a missing path raises \<^verbatim>\<open>FileNotFoundError\<close>,
  and \<^verbatim>\<open>json.load\<close> of an HTML document raises \<^verbatim>\<open>JSONDecodeError\<close>.
\<close>

datatype file_content = FeatureCollection "feature list" | Html deck

type_synonym filesystem = "string \<rightharpoonup> file_content"

definition load_features :: "filesystem \<Rightarrow> string \<Rightarrow> error + feature list" where
  "load_features fs path =
     (case fs path of
        None \<Rightarrow> Inl FileNotFoundError
      | Some (Html d) \<Rightarrow> Inl JSONDecodeError
      | Some (FeatureCollection features) \<Rightarrow> Inr features)"

text \<open>\<^verbatim>\<open>create_map\<close>, lines 24 to 88, with the parameters in the order of its
  signature. The result is the file system after \<^verbatim>\<open>r.to_html(output_file)\<close>.\<close>

definition create_map ::
  "filesystem \<Rightarrow> string \<Rightarrow> string option \<Rightarrow> real \<Rightarrow> int list \<Rightarrow> int list \<Rightarrow> bool \<Rightarrow> bool
     \<Rightarrow> bool \<Rightarrow> bool \<Rightarrow> bool \<Rightarrow> bool \<Rightarrow> real \<Rightarrow> real \<Rightarrow> real \<Rightarrow> string \<Rightarrow> string
     \<Rightarrow> error + filesystem" where
  "create_map fs input_file layer_type elevation_scale fill_color line_color auto_highlight
       pickable extruded stroked filled wireframe coverage pitch bearing output_file
       elevation_property =
     (case load_features fs input_file of
        Inl e \<Rightarrow> Inl e
      | Inr features \<Rightarrow>
     (case aggregate (map geometry features) of
        Inl e \<Rightarrow> Inl e
      | Inr (bbox, c) \<Rightarrow>
     (case get_zoom_level bbox 500 500 of
        Inl e \<Rightarrow> Inl e
      | Inr zoom \<Rightarrow>
          let layer = \<lparr>type = layer_type,
                       data = features,
                       get_position = [''lng'', ''lat''],
                       get_elevation = ''properties.'' @ elevation_property,
                       get_fill_color = fill_color,
                       get_line_color = line_color,
                       auto_highlight = auto_highlight,
                       elevation_scale = elevation_scale,
                       pickable = pickable,
                       elevation_range = [0, 3000],
                       stroked = stroked,
                       filled = filled,
                       wireframe = wireframe,
                       extruded = extruded,
                       coverage = coverage\<rparr>;
              view_state = \<lparr>longitude = fst c,
                            latitude = snd c,
                            zoom = zoom,
                            min_zoom = 13,
                            max_zoom = 20,
                            pitch = pitch,
                            bearing = bearing\<rparr>;
              r = \<lparr>layers = [layer], initial_view_state = view_state\<rparr>
          in Inr (fs(output_file \<mapsto> Html r)))))"
  for input_file layer_type elevation_scale fill_color line_color auto_highlight pickable
    extruded stroked filled wireframe coverage pitch bearing output_file elevation_property
    zoom

text \<open>The namespace \<^verbatim>\<open>parser.parse_args()\<close> returns, lines 91 to 125, one field per
  argument.\<close>

record args =
  input_file :: string
  elevation_property :: string
  layer_type :: "string option"
  elevation_scale :: real
  fill_color :: "int list"
  line_color :: "int list"
  auto_highlight :: bool
  pickable :: bool
  stroked :: bool
  filled :: bool
  wireframe :: bool
  extruded :: bool
  coverage :: real
  pitch :: real
  bearing :: real
  output_file :: string

text \<open>Line 127: the call of \<^verbatim>\<open>create_map\<close>, every argument positional, in the order
  written there.\<close>

definition pydeckCLI_main :: "filesystem \<Rightarrow> args \<Rightarrow> error + filesystem" where
  "pydeckCLI_main fs a =
     create_map fs (args.input_file a) (args.layer_type a) (args.elevation_scale a)
       (args.fill_color a) (args.line_color a) (args.auto_highlight a) (args.pickable a)
       (args.stroked a) (args.filled a) (args.wireframe a) (args.extruded a)
       (args.coverage a) (args.pitch a) (args.bearing a) (args.output_file a)
       (args.elevation_property a)"

section \<open>\<^verbatim>\<open>show_properties.py\<close>\<close>

text \<open>Lines 8 to 10: the set that collects the keys of every feature's properties.\<close>

definition property_set :: "feature list \<Rightarrow> string set" where
  "property_set features = foldl (\<lambda>s f. s \<union> set (map fst (properties f))) {} features"

text \<open>\<^verbatim>\<open>sorted(properties)\<close> of line 12: strings are ordered lexicographically by
  character code.\<close>

definition list_properties :: "feature list \<Rightarrow> string list" where
  "list_properties features = sorted_list_of_set (property_set features)"

text \<open>\<^verbatim>\<open>show_properties(input_file)\<close>, lines 4 to 13; the result is the list of the
  lines printed.\<close>

definition show_properties :: "filesystem \<Rightarrow> string \<Rightarrow> error + string list" where
  "show_properties fs input_file =
     (case load_features fs input_file of
        Inl e \<Rightarrow> Inl e
      | Inr features \<Rightarrow>
          Inr (''Available properties:'' # map (\<lambda>p. ''  - '' @ p) (list_properties features)))"
  for input_file

record show_args =
  input_file :: string
  properties :: bool

text \<open>Lines 16 to 22: the function is called only when \<^verbatim>\<open>--properties\<close> was given.\<close>

definition show_properties_main :: "filesystem \<Rightarrow> show_args \<Rightarrow> error + string list" where
  "show_properties_main fs a =
     (if show_args.properties a then show_properties fs (show_args.input_file a) else Inr [])"

section \<open>Zoom level: properties\<close>

lemma get_zoom_level_defined:
  assumes "width \<noteq> 0" and "height \<noteq> 0"
  shows "get_zoom_level (minx, miny, maxx, maxy) width height =
           Inr (min (-1 * ((maxx - minx) / width) / (2 * pi) * 360 / ln 2)
                    (-1 * ((maxy - miny) / height) / (2 * pi) * 360 / ln 2))"
  unfolding get_zoom_level_def Let_def prod.case
  by (simp only: assms if_False)

lemma axis_zoom_nonpos:
  assumes "0 \<le> d" and "0 < (s::real)"
  shows "-1 * (d / s) / (2 * pi) * 360 / ln 2 \<le> 0"
proof -
  have "0 \<le> (d / s) / (2 * pi) * 360 / ln 2"
    using assms by (intro divide_nonneg_pos mult_nonneg_nonneg divide_nonneg_nonneg) simp_all
  then show ?thesis by simp
qed

text \<open>
  Claim C7. For a bounding box with \<open>minx \<le> maxx\<close> and \<open>miny \<le> maxy\<close> and positive
  width and height, the x-axis zoom and the y-axis zoom are each the negation of a
  nonnegative quantity, and \<open>get_zoom_level\<close> returns a value that is at most 0.
\<close>

theorem C7_zoom_nonpositive:
  assumes "minx \<le> maxx" and "miny \<le> maxy" and "0 < width" and "0 < height"
  shows "\<exists>qx qy. 0 \<le> qx \<and> 0 \<le> qy
           \<and> -1 * ((maxx - minx) / width) / (2 * pi) * 360 / ln 2 = - qx
           \<and> -1 * ((maxy - miny) / height) / (2 * pi) * 360 / ln 2 = - qy
           \<and> get_zoom_level (minx, miny, maxx, maxy) width height = Inr (min (- qx) (- qy))
           \<and> min (- qx) (- qy) \<le> 0"
proof -
  let ?qx = "((maxx - minx) / width) / (2 * pi) * 360 / ln 2"
  let ?qy = "((maxy - miny) / height) / (2 * pi) * 360 / ln 2"
  have qx: "0 \<le> ?qx"
    using axis_zoom_nonpos [of "maxx - minx" width] assms by simp
  have qy: "0 \<le> ?qy"
    using axis_zoom_nonpos [of "maxy - miny" height] assms by simp
  have ex: "-1 * ((maxx - minx) / width) / (2 * pi) * 360 / ln 2 = - ?qx"
    by (simp only: mult_minus1 minus_divide_left [symmetric] mult_minus_left)
  have ey: "-1 * ((maxy - miny) / height) / (2 * pi) * 360 / ln 2 = - ?qy"
    by (simp only: mult_minus1 minus_divide_left [symmetric] mult_minus_left)
  have z: "get_zoom_level (minx, miny, maxx, maxy) width height = Inr (min (- ?qx) (- ?qy))"
    using assms get_zoom_level_defined [of width height minx miny maxx maxy]
    by (simp only: ex ey)
  have m: "min (- ?qx) (- ?qy) \<le> 0"
    using qx qy by simp
  from qx qy ex ey z m show ?thesis
    by blast
qed

theorem C7_zoom_nonpositive_witness:
  "\<exists>qx qy. 0 \<le> qx \<and> 0 \<le> qy
     \<and> -1 * ((3 - 1) / 500) / (2 * pi) * 360 / ln 2 = - qx
     \<and> -1 * ((5 - 2) / 400) / (2 * pi) * 360 / ln 2 = - qy
     \<and> get_zoom_level (1, 2, 3, 5) 500 400 = Inr (min (- qx) (- qy))
     \<and> min (- qx) (- qy) \<le> 0"
  using C7_zoom_nonpositive [of 1 3 2 5 500 400] by simp

section \<open>Zoom level: the formula, its value and its edge cases\<close>

subsection \<open>Bounds on \<open>ln 2\<close> and \<open>pi\<close> from Taylor polynomials\<close>

lemma exp_partial_sum_le:
  assumes "0 \<le> (x::real)"
  shows "(\<Sum>m<n. x ^ m / fact m) \<le> exp x"
proof -
  obtain t where t: "exp x = (\<Sum>m<n. x ^ m / fact m) + (exp t / fact n) * x ^ n"
    using Maclaurin_exp_le [of x n] by blast
  have "0 \<le> (exp t / fact n) * x ^ n"
    using assms by simp
  with t show ?thesis by linarith
qed

lemma exp_le_partial_sum:
  assumes "0 \<le> (x::real)" and "x \<le> 1"
  shows "exp x \<le> (\<Sum>m<n. x ^ m / fact m) + 3 * x ^ n / fact n"
proof -
  obtain t where t: "\<bar>t\<bar> \<le> \<bar>x\<bar>" "exp x = (\<Sum>m<n. x ^ m / fact m) + (exp t / fact n) * x ^ n"
    using Maclaurin_exp_le [of x n] by blast
  have "t \<le> 1" using t(1) assms by linarith
  then have "exp t \<le> exp 1" by simp
  also have "\<dots> \<le> 3" by (rule exp_le)
  finally have "exp t \<le> 3" .
  then have "exp t * (x ^ n / fact n) \<le> 3 * (x ^ n / fact n)"
    using assms by (intro mult_right_mono) simp_all
  with t(2) show ?thesis by (simp add: field_simps)
qed

lemma ln2_upper: "ln 2 < (6932 / 10000 :: real)"
proof -
  have "(2::real) < (\<Sum>m<8. (6932 / 10000) ^ m / fact m)"
    by (simp add: lessThan_nat_numeral lessThan_Suc fact_numeral power_divide)
  also have "\<dots> \<le> exp (6932 / 10000)"
    by (rule exp_partial_sum_le) simp
  finally have "exp (ln 2) < exp (6932 / 10000 :: real)" by simp
  then show ?thesis by (simp only: exp_less_cancel_iff)
qed

lemma ln2_lower: "(6931 / 10000 :: real) < ln 2"
proof -
  have "exp (6931 / 10000 :: real) \<le> (\<Sum>m<8. (6931 / 10000) ^ m / fact m) + 3 * (6931 / 10000) ^ 8 / fact 8"
    by (rule exp_le_partial_sum) simp_all
  also have "\<dots> < 2"
    by (simp add: lessThan_nat_numeral lessThan_Suc fact_numeral power_divide)
  finally have "exp (6931 / 10000 :: real) < exp (ln 2)" by simp
  then show ?thesis by (simp only: exp_less_cancel_iff)
qed


lemma cos_taylor_bound:
  "\<bar>cos (x::real) - (\<Sum>m<n. cos_coeff m * x ^ m)\<bar> \<le> \<bar>x\<bar> ^ n / fact n"
proof -
  obtain t where t: "cos x = (\<Sum>m<n. cos_coeff m * x ^ m) + (cos (t + 1/2 * real n * pi) / fact n) * x ^ n"
    using Maclaurin_cos_expansion [of x n] by blast
  have "\<bar>(cos (t + 1/2 * real n * pi) / fact n) * x ^ n\<bar> = \<bar>cos (t + 1/2 * real n * pi)\<bar> * (\<bar>x\<bar> ^ n / fact n)"
    by (simp add: abs_mult power_abs)
  also have "\<dots> \<le> 1 * (\<bar>x\<bar> ^ n / fact n)"
    by (intro mult_right_mono) simp_all
  finally show ?thesis using t by simp
qed

lemma pi_lower: "(31415 / 10000 :: real) < pi"
proof -
  let ?x = "31415 / 20000 :: real"
  have "\<bar>cos ?x - (\<Sum>m<12. cos_coeff m * ?x ^ m)\<bar> \<le> \<bar>?x\<bar> ^ 12 / fact 12"
    by (rule cos_taylor_bound)
  moreover have "\<bar>?x\<bar> ^ 12 / fact 12 < (\<Sum>m<12. cos_coeff m * ?x ^ m)"
    by (simp add: lessThan_nat_numeral lessThan_Suc fact_numeral power_divide cos_coeff_def)
  ultimately have pos: "0 < cos ?x" by linarith
  have "?x < pi / 2"
  proof (rule ccontr)
    assume "\<not> ?x < pi / 2"
    then have "pi / 2 \<le> ?x" by simp
    moreover have "?x \<le> pi" using pi_ge_two by simp
    ultimately have "cos ?x \<le> cos (pi / 2)"
      by (intro cos_monotone_0_pi_le) simp_all
    with pos show False by simp
  qed
  then show ?thesis by simp
qed

lemma pi_upper: "pi < (31416 / 10000 :: real)"
proof -
  let ?x = "31416 / 20000 :: real"
  have "\<bar>cos ?x - (\<Sum>m<12. cos_coeff m * ?x ^ m)\<bar> \<le> \<bar>?x\<bar> ^ 12 / fact 12"
    by (rule cos_taylor_bound)
  moreover have "(\<Sum>m<12. cos_coeff m * ?x ^ m) < - (\<bar>?x\<bar> ^ 12 / fact 12)"
    by (simp add: lessThan_nat_numeral lessThan_Suc fact_numeral power_divide cos_coeff_def)
  ultimately have neg: "cos ?x < 0" by linarith
  have "pi / 2 < ?x"
  proof (rule ccontr)
    assume "\<not> pi / 2 < ?x"
    then have "?x \<le> pi / 2" by simp
    then have "0 \<le> cos ?x"
      by (intro cos_ge_zero) simp_all
    with neg show False by simp
  qed
  then show ?thesis by simp
qed


subsection \<open>The zoom of one axis\<close>

lemma ln2_pos: "0 < ln (2::real)"
  by simp

lemma neg_axis_zoom: "-1 * (d / s) / (2 * pi) * 360 / ln 2 = - (d / s) / (2 * pi) * 360 / ln (2::real)"
  by (simp only: mult_minus1)

lemma axis_zoom_antimono:
  assumes "d1 \<le> d2" and "0 < (s::real)"
  shows "- (d2 / s) / (2 * pi) * 360 / ln 2 \<le> - (d1 / s) / (2 * pi) * 360 / ln 2"
proof -
  have "d1 / s \<le> d2 / s"
    using assms by (simp add: divide_right_mono)
  then have "- (d2 / s) \<le> - (d1 / s)" by simp
  then have "- (d2 / s) / (2 * pi) \<le> - (d1 / s) / (2 * pi)"
    by (intro divide_right_mono) simp_all
  then have "- (d2 / s) / (2 * pi) * 360 \<le> - (d1 / s) / (2 * pi) * 360"
    by (intro mult_right_mono) simp_all
  then show ?thesis
    by (intro divide_right_mono) simp_all
qed

lemma axis_zoom_neg:
  assumes "0 < d" and "0 < (s::real)"
  shows "- (d / s) / (2 * pi) * 360 / ln 2 < 0"
proof -
  have "0 < (d / s) / (2 * pi) * 360 / ln 2"
    using assms by (intro divide_pos_pos mult_pos_pos) simp_all
  then show ?thesis by simp
qed

lemma get_zoom_level_spec_form:
  assumes "width \<noteq> 0" and "height \<noteq> 0"
  shows "get_zoom_level (minx, miny, maxx, maxy) width height =
           Inr (min (- ((maxx - minx) / width) / (2 * pi) * 360 / ln 2)
                    (- ((maxy - miny) / height) / (2 * pi) * 360 / ln 2))"
  using get_zoom_level_defined [OF assms, of minx miny maxx maxy]
  by (simp only: neg_axis_zoom)

lemma pi_ln2_bounds:
  "(31415 / 10000) * (6931 / 10000) < pi * ln 2"
  "pi * ln 2 < (31416 / 10000) * (6932 / 10000 :: real)"
proof -
  show "(31415 / 10000) * (6931 / 10000) < pi * ln 2"
    using pi_lower ln2_lower by (intro mult_strict_mono) simp_all
  show "pi * ln 2 < (31416 / 10000) * (6932 / 10000 :: real)"
    using pi_upper ln2_upper ln2_pos by (intro mult_strict_mono) simp_all
qed

lemma zoom_example_enclosure:
  "- (16534 / 10000) < - (10 / 500) / (2 * pi) * 360 / ln (2::real)"
  "- (10 / 500) / (2 * pi) * 360 / ln (2::real) < - (16530 / 10000)"
proof -
  have eq: "- (10 / 500) / (2 * pi) * 360 / ln (2::real) = - ((18 / 5) / (pi * ln 2))"
    by simp
  have pos: "0 < pi * ln (2::real)"
    by simp
  have "(18 / 5) / (pi * ln 2) < (16534 / 10000 :: real)"
    using pi_ln2_bounds(1) pos by (simp add: divide_simps)
  then show "- (16534 / 10000) < - (10 / 500) / (2 * pi) * 360 / ln (2::real)"
    by (simp only: eq neg_less_iff_less)
  have "(16530 / 10000 :: real) < (18 / 5) / (pi * ln 2)"
    using pi_ln2_bounds(2) pos by (simp add: divide_simps)
  then show "- (10 / 500) / (2 * pi) * 360 / ln (2::real) < - (16530 / 10000)"
    by (simp only: eq neg_less_iff_less)
qed


subsection \<open>The formula and its edge cases\<close>

text \<open>
  Claim C1, with the decimal figure the formula has. For a bounding box and nonzero
  width and height, \<open>get_zoom_level\<close> returns \<open>min xzoom yzoom\<close> with
  \<open>xzoom = -((maxx - minx) / width) / (2 pi) * 360 / ln 2\<close> and
  \<open>yzoom = -((maxy - miny) / height) / (2 pi) * 360 / ln 2\<close>. For bounds
  \<open>(0, 0, 10, 10)\<close> and width and height 500 the result is
  \<open>-(10 / 500) / (2 pi) * 360 / ln 2\<close> exactly (so within any tolerance), a number
  between \<open>-1.6534\<close> and \<open>-1.6530\<close>. For a bounding box with \<open>miny \<le> maxy\<close> that is
  twice as wide as tall, and equal positive width and height, the result is the x-axis
  zoom, which is the smaller of the two.
\<close>

theorem C1_zoom_formula:
  "(width \<noteq> 0 \<and> height \<noteq> 0 \<longrightarrow>
      get_zoom_level (minx, miny, maxx, maxy) width height =
        Inr (min (- ((maxx - minx) / width) / (2 * pi) * 360 / ln 2)
                 (- ((maxy - miny) / height) / (2 * pi) * 360 / ln 2)))
   \<and> get_zoom_level (0, 0, 10, 10) 500 500 = Inr (- (10 / 500) / (2 * pi) * 360 / ln 2)
   \<and> - (16534 / 10000) < - (10 / 500) / (2 * pi) * 360 / ln (2::real)
   \<and> - (10 / 500) / (2 * pi) * 360 / ln (2::real) < - (16530 / 10000)
   \<and> (miny' \<le> maxy' \<and> maxx' - minx' = 2 * (maxy' - miny') \<and> 0 < w \<longrightarrow>
        get_zoom_level (minx', miny', maxx', maxy') w w =
          Inr (- ((maxx' - minx') / w) / (2 * pi) * 360 / ln 2)
        \<and> - ((maxx' - minx') / w) / (2 * pi) * 360 / ln 2
            \<le> - ((maxy' - miny') / w) / (2 * pi) * 360 / ln 2)"
proof (intro conjI impI)
  assume "width \<noteq> 0 \<and> height \<noteq> 0"
  then have "width \<noteq> 0" and "height \<noteq> 0"
    by simp_all
  then show "get_zoom_level (minx, miny, maxx, maxy) width height =
        Inr (min (- ((maxx - minx) / width) / (2 * pi) * 360 / ln 2)
                 (- ((maxy - miny) / height) / (2 * pi) * 360 / ln 2))"
    by (rule get_zoom_level_spec_form)
next
  have "get_zoom_level (0, 0, 10, 10) 500 500 =
          Inr (min (- ((10 - 0) / 500) / (2 * pi) * 360 / ln 2)
                   (- ((10 - 0) / 500) / (2 * pi) * 360 / ln 2))"
    by (rule get_zoom_level_spec_form) simp_all
  then show "get_zoom_level (0, 0, 10, 10) 500 500 = Inr (- (10 / 500) / (2 * pi) * 360 / ln 2)"
    by (simp only: min.idem diff_zero)
next
  show "- (16534 / 10000) < - (10 / 500) / (2 * pi) * 360 / ln (2::real)"
    by (rule zoom_example_enclosure)
next
  show "- (10 / 500) / (2 * pi) * 360 / ln (2::real) < - (16530 / 10000)"
    by (rule zoom_example_enclosure)
next
  assume h: "miny' \<le> maxy' \<and> maxx' - minx' = 2 * (maxy' - miny') \<and> 0 < w"
  then have le: "maxy' - miny' \<le> maxx' - minx'" by simp
  from h have w: "0 < w" by simp
  show le': "- ((maxx' - minx') / w) / (2 * pi) * 360 / ln 2
            \<le> - ((maxy' - miny') / w) / (2 * pi) * 360 / ln 2"
    using le w by (rule axis_zoom_antimono)
  have "get_zoom_level (minx', miny', maxx', maxy') w w =
          Inr (min (- ((maxx' - minx') / w) / (2 * pi) * 360 / ln 2)
                   (- ((maxy' - miny') / w) / (2 * pi) * 360 / ln 2))"
    using w by (intro get_zoom_level_spec_form) simp_all
  then show "get_zoom_level (minx', miny', maxx', maxy') w w =
          Inr (- ((maxx' - minx') / w) / (2 * pi) * 360 / ln 2)"
    using le' by (simp only: min.absorb1)
qed

theorem C1_zoom_formula_witness:
  "get_zoom_level (1, 2, 5, 3) 500 250 =
     Inr (min (- ((5 - 1) / 500) / (2 * pi) * 360 / ln 2)
              (- ((3 - 2) / 250) / (2 * pi) * 360 / ln 2))
   \<and> get_zoom_level (1, 2, 5, 4) 500 500 = Inr (- ((5 - 1) / 500) / (2 * pi) * 360 / ln 2)
   \<and> - ((5 - 1) / 500) / (2 * pi) * 360 / ln 2 \<le> - ((4 - 2) / 500) / (2 * pi) * 360 / ln (2::real)"
proof -
  have a: "(500::real) \<noteq> 0 \<and> (250::real) \<noteq> 0" by simp
  have c: "(2::real) \<le> 4 \<and> (5::real) - 1 = 2 * (4 - 2) \<and> (0::real) < 500" by simp
  note t1 = C1_zoom_formula [where width = 500 and height = 250 and minx = 1 and miny = 2
      and maxx = 5 and maxy = 3, THEN conjunct1, THEN mp, OF a]
  note t2 = C1_zoom_formula [where minx' = 1 and miny' = 2 and maxx' = 5 and maxy' = 4
      and w = 500, THEN conjunct2, THEN conjunct2, THEN conjunct2, THEN conjunct2, THEN mp, OF c]
  from t1 t2 show ?thesis by blast
qed

text \<open>The result for bounds \<open>(0, 0, 10, 10)\<close>, width 500 and height 500 is not
  \<open>-1.654\<close> to the three decimals of that figure (so not to \<open>1e-9\<close> either).\<close>

theorem C1_zoom_formula_counterexample:
  "\<not> (\<exists>z. get_zoom_level (0, 0, 10, 10) 500 500 = Inr z
           \<and> \<bar>z - (- (1654 / 1000))\<bar> \<le> 5 / 10000)"
proof
  assume "\<exists>z. get_zoom_level (0, 0, 10, 10) 500 500 = Inr z
           \<and> \<bar>z - (- (1654 / 1000))\<bar> \<le> 5 / 10000"
  then obtain z where z: "get_zoom_level (0, 0, 10, 10) 500 500 = Inr z"
    and close: "\<bar>z - (- (1654 / 1000))\<bar> \<le> 5 / 10000"
    by blast
  have "get_zoom_level (0, 0, 10, 10) 500 500 =
          Inr (min (- ((10 - 0) / 500) / (2 * pi) * 360 / ln 2)
                   (- ((10 - 0) / 500) / (2 * pi) * 360 / ln 2))"
    by (rule get_zoom_level_spec_form) simp_all
  then have "get_zoom_level (0, 0, 10, 10) 500 500 = Inr (- (10 / 500) / (2 * pi) * 360 / ln 2)"
    by (simp only: min.idem diff_zero)
  with z have "z = - (10 / 500) / (2 * pi) * 360 / ln 2"
    by simp
  with zoom_example_enclosure(1) have "- (16534 / 10000) < z"
    by simp
  with close show False
    by (simp add: abs_le_iff)
qed

text \<open>
  Claim C6, as the code has it. With positive width and height: when both extents are
  0 the result is 0; when only the x extent is 0 (and \<open>miny \<le> maxy\<close>) the result is
  the y-axis zoom, and when only the y extent is 0 (and \<open>minx \<le> maxx\<close>) it is the
  x-axis zoom; the zoom of an axis with a positive extent is negative, so the result
  is then not 0. When width or height is 0 the call raises \<open>ZeroDivisionError\<close>; no
  input gives \<open>DegenerateBoundsError\<close>.
\<close>

theorem C6_degenerate_inputs:
  "(0 < width \<and> 0 < height \<longrightarrow> get_zoom_level (x, y, x, y) width height = Inr 0)
   \<and> (0 < width \<and> 0 < height \<and> miny \<le> maxy \<longrightarrow>
        get_zoom_level (x, miny, x, maxy) width height =
          Inr (- ((maxy - miny) / height) / (2 * pi) * 360 / ln 2))
   \<and> (0 < width \<and> 0 < height \<and> minx \<le> maxx \<longrightarrow>
        get_zoom_level (minx, y, maxx, y) width height =
          Inr (- ((maxx - minx) / width) / (2 * pi) * 360 / ln 2))
   \<and> (0 < d \<and> 0 < s \<longrightarrow> - (d / s) / (2 * pi) * 360 / ln 2 < 0)
   \<and> get_zoom_level b 0 height = Inl ZeroDivisionError
   \<and> get_zoom_level b width 0 = Inl ZeroDivisionError
   \<and> get_zoom_level b width height \<noteq> Inl DegenerateBoundsError"
proof (intro conjI impI)
  assume h: "0 < width \<and> 0 < height"
  then have "get_zoom_level (x, y, x, y) width height =
          Inr (min (- ((x - x) / width) / (2 * pi) * 360 / ln 2)
                   (- ((y - y) / height) / (2 * pi) * 360 / ln 2))"
    by (intro get_zoom_level_spec_form) simp_all
  then show "get_zoom_level (x, y, x, y) width height = Inr 0"
    by simp
next
  assume h: "0 < width \<and> 0 < height \<and> miny \<le> maxy"
  then have "- ((maxy - miny) / height) / (2 * pi) * 360 / ln 2
               \<le> - ((x - x) / height) / (2 * pi) * 360 / ln 2"
    by (intro axis_zoom_antimono) simp_all
  then have le: "- ((maxy - miny) / height) / (2 * pi) * 360 / ln 2
               \<le> - ((x - x) / width) / (2 * pi) * 360 / ln 2"
    by simp
  from h have "get_zoom_level (x, miny, x, maxy) width height =
          Inr (min (- ((x - x) / width) / (2 * pi) * 360 / ln 2)
                   (- ((maxy - miny) / height) / (2 * pi) * 360 / ln 2))"
    by (intro get_zoom_level_spec_form) simp_all
  then show "get_zoom_level (x, miny, x, maxy) width height =
          Inr (- ((maxy - miny) / height) / (2 * pi) * 360 / ln 2)"
    using le by (simp only: min.absorb2)
next
  assume h: "0 < width \<and> 0 < height \<and> minx \<le> maxx"
  then have "- ((maxx - minx) / width)  / (2 * pi) * 360 / ln 2
               \<le> - ((y - y) / width) / (2 * pi) * 360 / ln 2"
    by (intro axis_zoom_antimono) simp_all
  then have le: "- ((maxx - minx) / width) / (2 * pi) * 360 / ln 2
               \<le> - ((y - y) / height) / (2 * pi) * 360 / ln 2"
    by simp
  from h have "get_zoom_level (minx, y, maxx, y) width height =
          Inr (min (- ((maxx - minx) / width) / (2 * pi) * 360 / ln 2)
                   (- ((y - y) / height) / (2 * pi) * 360 / ln 2))"
    by (intro get_zoom_level_spec_form) simp_all
  then show "get_zoom_level (minx, y, maxx, y) width height =
          Inr (- ((maxx - minx) / width) / (2 * pi) * 360 / ln 2)"
    using le by (simp only: min.absorb1)
next
  assume "0 < d \<and> 0 < s"
  then show "- (d / s) / (2 * pi) * 360 / ln 2 < 0"
    by (simp only: axis_zoom_neg)
next
  show "get_zoom_level b 0 height = Inl ZeroDivisionError"
    by (cases b) (simp add: get_zoom_level_def)
next
  show "get_zoom_level b width 0 = Inl ZeroDivisionError"
    by (cases b) (simp add: get_zoom_level_def Let_def)
next
  show "get_zoom_level b width height \<noteq> Inl DegenerateBoundsError"
    by (cases b) (simp add: get_zoom_level_def Let_def)
qed

theorem C6_degenerate_inputs_witness:
  "get_zoom_level (3, 4, 3, 4) 500 500 = Inr 0
   \<and> get_zoom_level (3, 0, 3, 10) 500 500 = Inr (- ((10 - 0) / 500) / (2 * pi) * 360 / ln 2)
   \<and> get_zoom_level (0, 4, 10, 4) 500 500 = Inr (- ((10 - 0) / 500) / (2 * pi) * 360 / ln 2)
   \<and> - (10 / 500) / (2 * pi) * 360 / ln (2::real) < 0"
proof -
  have a: "(0::real) < 500 \<and> (0::real) < 500" by simp
  have b: "(0::real) < 500 \<and> (0::real) < 500 \<and> (0::real) \<le> 10" by simp
  have c: "(0::real) < 10 \<and> (0::real) < 500" by simp
  note t1 = C6_degenerate_inputs [where width = 500 and height = 500 and x = 3 and y = 4,
      THEN conjunct1, THEN mp, OF a]
  note t2 = C6_degenerate_inputs [where width = 500 and height = 500 and x = 3 and miny = 0
      and maxy = 10, THEN conjunct2, THEN conjunct1, THEN mp, OF b]
  note t3 = C6_degenerate_inputs [where width = 500 and height = 500 and y = 4 and minx = 0
      and maxx = 10, THEN conjunct2, THEN conjunct2, THEN conjunct1, THEN mp, OF b]
  note t4 = C6_degenerate_inputs [where d = 10 and s = 500, THEN conjunct2, THEN conjunct2,
      THEN conjunct2, THEN conjunct1, THEN mp, OF c]
  from t1 t2 t3 t4 show ?thesis by blast
qed

text \<open>A box whose x extent is 0 and whose y extent is 10, on a 500 by 500 surface: the
  result is not 0.\<close>

theorem C6_degenerate_inputs_counterexample:
  "get_zoom_level (0, 0, 0, 10) 500 500 \<noteq> Inr 0"
proof -
  have "get_zoom_level (0, 0, 0, 10) 500 500 =
          Inr (min (- ((0 - 0) / 500) / (2 * pi) * 360 / ln 2)
                   (- ((10 - 0) / 500) / (2 * pi) * 360 / ln 2))"
    by (rule get_zoom_level_spec_form) simp_all
  moreover have "- ((10 - 0) / 500) / (2 * pi) * 360 / ln (2::real) < 0"
    by (rule axis_zoom_neg) simp_all
  ultimately show ?thesis
    by simp
qed

section \<open>Bounding box and centroid: properties\<close>

lemma min_loop_fold: "min_loop m xs = fold min xs m"
proof (induction xs arbitrary: m)
  case Nil
  show ?case by simp
next
  case (Cons x xs)
  have "(if x < m then x else m) = min x m" by (simp add: min_def)
  with Cons show ?case by simp
qed

lemma max_loop_fold: "max_loop m xs = fold max xs m"
proof (induction xs arbitrary: m)
  case Nil
  show ?case by simp
next
  case (Cons x xs)
  have "(if m < x then x else m) = max x m" by (simp add: max_def)
  with Cons show ?case by simp
qed

lemma min_py_empty: "min_py [] = Inl ValueError"
  by (simp add: min_py_def)

lemma min_loop_Min: "min_loop x xs = Min (set (x # xs))"
  by (simp only: min_loop_fold Min.set_eq_fold)

lemma max_loop_Max: "max_loop x xs = Max (set (x # xs))"
  by (simp only: max_loop_fold Max.set_eq_fold)

lemma min_py_Min: "xs \<noteq> [] \<Longrightarrow> min_py xs = Inr (Min (set xs))"
  by (cases xs) (simp_all add: min_py_def min_loop_Min)

lemma max_py_Max: "xs \<noteq> [] \<Longrightarrow> max_py xs = Inr (Max (set xs))"
  by (cases xs) (simp_all add: max_py_def max_loop_Max)

lemma foldl_plus_sum_list: "foldl (+) a xs = a + sum_list (xs :: real list)"
  by (induction xs arbitrary: a) simp_all

lemma sum_py_sum_list: "sum_py xs = sum_list xs"
  by (simp add: sum_py_def foldl_plus_sum_list)

lemma total_bounds_empty: "total_bounds [] = Inl ValueError"
  by (simp add: total_bounds_def min_py_empty)

lemma total_bounds_nonempty:
  assumes "bl \<noteq> []"
  shows "total_bounds bl =
           Inr (Min ((\<lambda>(b0, b1, b2, b3). b0) ` set bl),
                Min ((\<lambda>(b0, b1, b2, b3). b1) ` set bl),
                Max ((\<lambda>(b0, b1, b2, b3). b2) ` set bl),
                Max ((\<lambda>(b0, b1, b2, b3). b3) ` set bl))"
  using assms by (simp add: total_bounds_def min_py_Min max_py_Max)

lemma mean_centroid_nonempty:
  assumes "cl \<noteq> []"
  shows "mean_centroid cl =
           Inr (sum_list (map fst cl) / real (length cl),
                sum_list (map snd cl) / real (length cl))"
  using assms by (simp add: mean_centroid_def div_py_def sum_py_sum_list)

lemma aggregate_empty: "aggregate [] = Inl ValueError"
  by (simp add: aggregate_def total_bounds_empty)

lemma aggregate_nonempty:
  assumes "gs \<noteq> []"
  shows "aggregate gs =
           Inr ((Min ((\<lambda>(b0, b1, b2, b3). b0) ` bounds ` set gs),
                 Min ((\<lambda>(b0, b1, b2, b3). b1) ` bounds ` set gs),
                 Max ((\<lambda>(b0, b1, b2, b3). b2) ` bounds ` set gs),
                 Max ((\<lambda>(b0, b1, b2, b3). b3) ` bounds ` set gs)),
                (sum_list (map (fst \<circ> centroid) gs) / real (length gs),
                 sum_list (map (snd \<circ> centroid) gs) / real (length gs)))"
  using assms
  by (simp add: aggregate_def total_bounds_nonempty mean_centroid_nonempty)

text \<open>
  Claim C2. For a non-empty sequence of geometries the aggregated bounding box is the
  union box: the minimum of the \<open>minx\<close>, the minimum of the \<open>miny\<close>, the maximum of
  the \<open>maxx\<close> and the maximum of the \<open>maxy\<close> of the geometries' bounds. Any
  reordering of the sequence has the same aggregated bounding box.
\<close>

theorem C2_union_bounding_box:
  assumes "gs \<noteq> []" and "mset gs' = mset gs"
  shows "\<exists>bb c c'.
           bb = (Min ((\<lambda>(b0, b1, b2, b3). b0) ` bounds ` set gs),
                 Min ((\<lambda>(b0, b1, b2, b3). b1) ` bounds ` set gs),
                 Max ((\<lambda>(b0, b1, b2, b3). b2) ` bounds ` set gs),
                 Max ((\<lambda>(b0, b1, b2, b3). b3) ` bounds ` set gs))
           \<and> aggregate gs = Inr (bb, c)
           \<and> aggregate gs' = Inr (bb, c')"
proof -
  have s: "set gs' = set gs"
    using assms(2) by (rule mset_eq_setD)
  have ne: "gs' \<noteq> []"
    using assms s by auto
  show ?thesis
    using aggregate_nonempty [OF assms(1)] aggregate_nonempty [OF ne] s by simp
qed

theorem C2_union_bounding_box_witness:
  "\<exists>bb c c'.
     bb = (0, -1, 4, 3)
     \<and> aggregate [\<lparr>bounds = (0, 0, 2, 3), centroid = (1, 1)\<rparr>,
                   \<lparr>bounds = (1, -1, 4, 2), centroid = (2, 0)\<rparr>] = Inr (bb, c)
     \<and> aggregate [\<lparr>bounds = (1, -1, 4, 2), centroid = (2, 0)\<rparr>,
                   \<lparr>bounds = (0, 0, 2, 3), centroid = (1, 1)\<rparr>] = Inr (bb, c')"
  using C2_union_bounding_box
    [of "[\<lparr>bounds = (0, 0, 2, 3), centroid = (1, 1)\<rparr>,
          \<lparr>bounds = (1, -1, 4, 2), centroid = (2, 0)\<rparr>]"
        "[\<lparr>bounds = (1, -1, 4, 2), centroid = (2, 0)\<rparr>,
          \<lparr>bounds = (0, 0, 2, 3), centroid = (1, 1)\<rparr>]"]
  by (simp add: add.commute)

text \<open>
  Claim C3. For a non-empty sequence of \<open>N\<close> geometries the aggregated centroid is
  the sum of the centroids' x coordinates divided by \<open>N\<close> and the sum of their y
  coordinates divided by \<open>N\<close>: a function of the individual centroids alone, with
  no weight and no use of the shapes. For centroids \<open>(1,1)\<close>, \<open>(3,3)\<close>, \<open>(5,5)\<close>, with
  any bounds, it is \<open>(3,3)\<close>.
\<close>

theorem C3_mean_of_centroids:
  "(gs \<noteq> [] \<longrightarrow>
      (\<exists>bb. aggregate gs =
         Inr (bb, (sum_list (map (fst \<circ> centroid) gs) / real (length gs),
                   sum_list (map (snd \<circ> centroid) gs) / real (length gs)))))
   \<and> (\<exists>bb. aggregate [\<lparr>bounds = b1, centroid = (1, 1)\<rparr>,
                        \<lparr>bounds = b2, centroid = (3, 3)\<rparr>,
                        \<lparr>bounds = b3, centroid = (5, 5)\<rparr>] = Inr (bb, (3, 3)))"
proof (intro conjI impI)
  assume "gs \<noteq> []"
  then show "\<exists>bb. aggregate gs =
         Inr (bb, (sum_list (map (fst \<circ> centroid) gs) / real (length gs),
                   sum_list (map (snd \<circ> centroid) gs) / real (length gs)))"
    using aggregate_nonempty by blast
next
  let ?gs = "[\<lparr>bounds = b1, centroid = (1, 1)\<rparr>, \<lparr>bounds = b2, centroid = (3, 3)\<rparr>,
              \<lparr>bounds = b3, centroid = (5, 5)\<rparr>]"
  have "?gs \<noteq> []" by simp
  from aggregate_nonempty [OF this]
  show "\<exists>bb. aggregate ?gs = Inr (bb, (3, 3))"
    by simp
qed

theorem C3_mean_of_centroids_witness:
  "\<exists>bb. aggregate [\<lparr>bounds = (0, 0, 1, 1), centroid = (1, 2)\<rparr>,
                    \<lparr>bounds = (0, 0, 8, 8), centroid = (4, 6)\<rparr>] = Inr (bb, (5 / 2, 4))"
  using C3_mean_of_centroids
    [of "[\<lparr>bounds = (0, 0, 1, 1), centroid = (1, 2)\<rparr>,
          \<lparr>bounds = (0, 0, 8, 8), centroid = (4, 6)\<rparr>]"]
  by simp

section \<open>The map and the command line: properties\<close>

lemma get_zoom_level_500: "\<exists>z. get_zoom_level b 500 500 = Inr z"
  by (cases b) (simp add: get_zoom_level_def Let_def)

lemma load_features_Some:
  "fs path = Some (FeatureCollection feats) \<Longrightarrow> load_features fs path = Inr feats"
  by (simp add: load_features_def)

lemma create_map_success:
  assumes "load_features fs inp = Inr feats"
    and "aggregate (map geometry feats) = Inr (bb, c)"
    and "get_zoom_level bb 500 500 = Inr z"
  shows "create_map fs inp lt es fc lc ah pk xt sk fl wr cv pt br out ep =
           Inr (fs(out \<mapsto> Html
             \<lparr>layers = [\<lparr>type = lt, data = feats, get_position = [''lng'', ''lat''],
                          get_elevation = ''properties.'' @ ep, get_fill_color = fc,
                          get_line_color = lc, auto_highlight = ah, elevation_scale = es,
                          pickable = pk, elevation_range = [0, 3000], stroked = sk,
                          filled = fl, wireframe = wr, extruded = xt, coverage = cv\<rparr>],
              initial_view_state = \<lparr>longitude = fst c, latitude = snd c, zoom = z,
                                      min_zoom = 13, max_zoom = 20, pitch = pt,
                                      bearing = br\<rparr>\<rparr>))"
  by (simp add: create_map_def assms Let_def)

text \<open>
  Claim C4, as the code has it. On an empty sequence of geometries the aggregation
  fails, and it fails with \<open>ValueError\<close>: the \<^verbatim>\<open>min\<close> of line 43 is applied to an
  empty sequence before the division by the length is reached (that division alone
  would raise \<open>ZeroDivisionError\<close>). So does \<open>create_map\<close> on a collection without
  features. No input makes the aggregation fail with \<open>EmptyInputError\<close>.
\<close>

theorem C4_empty_input_ValueError:
  "aggregate [] = Inl ValueError
   \<and> total_bounds [] = Inl ValueError
   \<and> mean_centroid [] = Inl ZeroDivisionError
   \<and> create_map (fs(inp \<mapsto> FeatureCollection [])) inp lt es fc lc ah pk xt sk fl wr cv pt br
        out ep = Inl ValueError
   \<and> (\<forall>gs. aggregate gs \<noteq> Inl EmptyInputError)"
proof -
  have a: "aggregate [] = Inl ValueError"
    by (rule aggregate_empty)
  have m: "mean_centroid [] = Inl ZeroDivisionError"
    by (simp add: mean_centroid_def div_py_def)
  have c: "create_map (fs(inp \<mapsto> FeatureCollection [])) inp lt es fc lc ah pk xt sk fl wr cv
             pt br out ep = Inl ValueError"
    by (simp add: create_map_def load_features_def a)
  have n: "aggregate gs \<noteq> Inl EmptyInputError" for gs
  proof (cases "gs = []")
    case True
    then show ?thesis by (simp add: a)
  next
    case False
    then show ?thesis by (simp add: aggregate_nonempty)
  qed
  from a total_bounds_empty m c n show ?thesis by blast
qed

text \<open>The error of the aggregation on the empty sequence is not \<open>EmptyInputError\<close>.\<close>

theorem C4_empty_input_counterexample:
  "aggregate [] \<noteq> Inl EmptyInputError"
  by (simp add: aggregate_empty)

text \<open>
  Claim C5. The call of line 127 passes \<^verbatim>\<open>args.stroked\<close>, \<^verbatim>\<open>args.filled\<close>,
  \<^verbatim>\<open>args.wireframe\<close>, \<^verbatim>\<open>args.extruded\<close> in the positions of the parameters
  \<^verbatim>\<open>extruded\<close>, \<^verbatim>\<open>stroked\<close>, \<^verbatim>\<open>filled\<close>, \<^verbatim>\<open>wireframe\<close> of \<open>create_map\<close>. Whenever
  the input file holds a non-empty collection, the layer written to the output file
  therefore has \<open>extruded\<close> = \<^verbatim>\<open>--stroked\<close>, \<open>stroked\<close> = \<^verbatim>\<open>--filled\<close>,
  \<open>filled\<close> = \<^verbatim>\<open>--wireframe\<close> and \<open>wireframe\<close> = \<^verbatim>\<open>--extruded\<close>.
\<close>

theorem C5_flags_bound_to_shifted_parameters:
  "pydeckCLI_main fs a =
     create_map fs (args.input_file a) (args.layer_type a) (args.elevation_scale a)
       (args.fill_color a) (args.line_color a) (args.auto_highlight a) (args.pickable a)
       (args.stroked a) (args.filled a) (args.wireframe a) (args.extruded a)
       (args.coverage a) (args.pitch a) (args.bearing a) (args.output_file a)
       (args.elevation_property a)
   \<and> (fs (args.input_file a) = Some (FeatureCollection feats) \<and> feats \<noteq> [] \<longrightarrow>
        (\<exists>fs' lay v.
           pydeckCLI_main fs a = Inr fs'
           \<and> fs' (args.output_file a) = Some (Html \<lparr>layers = [lay], initial_view_state = v\<rparr>)
           \<and> layer.extruded lay = args.stroked a
           \<and> layer.stroked lay = args.filled a
           \<and> layer.filled lay = args.wireframe a
           \<and> layer.wireframe lay = args.extruded a))"
proof (intro conjI impI)
  show "pydeckCLI_main fs a =
     create_map fs (args.input_file a) (args.layer_type a) (args.elevation_scale a)
       (args.fill_color a) (args.line_color a) (args.auto_highlight a) (args.pickable a)
       (args.stroked a) (args.filled a) (args.wireframe a) (args.extruded a)
       (args.coverage a) (args.pitch a) (args.bearing a) (args.output_file a)
       (args.elevation_property a)"
    by (rule pydeckCLI_main_def)
next
  assume h: "fs (args.input_file a) = Some (FeatureCollection feats) \<and> feats \<noteq> []"
  then have l: "load_features fs (args.input_file a) = Inr feats"
    by (simp add: load_features_Some)
  from h have "map geometry feats \<noteq> []" by simp
  then obtain bb c where ag: "aggregate (map geometry feats) = Inr (bb, c)"
    using aggregate_nonempty by blast
  obtain z where z: "get_zoom_level bb 500 500 = Inr z"
    using get_zoom_level_500 by blast
  show "\<exists>fs' lay v.
           pydeckCLI_main fs a = Inr fs'
           \<and> fs' (args.output_file a) = Some (Html \<lparr>layers = [lay], initial_view_state = v\<rparr>)
           \<and> layer.extruded lay = args.stroked a
           \<and> layer.stroked lay = args.filled a
           \<and> layer.filled lay = args.wireframe a
           \<and> layer.wireframe lay = args.extruded a"
    unfolding pydeckCLI_main_def create_map_success [OF l ag z]
    by simp
qed


theorem C5_flags_bound_to_shifted_parameters_witness:
  "\<exists>fs' lay v.
     pydeckCLI_main
       [''in.geojson'' \<mapsto> FeatureCollection
          [\<lparr>geometry = \<lparr>bounds = (0, 0, 10, 10), centroid = (5, 5)\<rparr>,
            properties = [(''elevation'', JNum 3)]\<rparr>]]
       \<lparr>args.input_file = ''in.geojson'', elevation_property = ''elevation'',
        layer_type = Some ''GeoJsonLayer'', elevation_scale = 1, fill_color = [255, 0, 0],
        line_color = [0, 0, 255], auto_highlight = True, pickable = True,
        stroked = False, filled = True, wireframe = True, extruded = True,
        coverage = 1, pitch = 45, bearing = 0, output_file = ''out.html''\<rparr> = Inr fs'
     \<and> fs' ''out.html'' = Some (Html \<lparr>layers = [lay], initial_view_state = v\<rparr>)
     \<and> layer.extruded lay = False
     \<and> layer.stroked lay = True
     \<and> layer.filled lay = True
     \<and> layer.wireframe lay = True"
proof -
  let ?feats = "[\<lparr>geometry = \<lparr>bounds = (0, 0, 10, 10), centroid = (5, 5)\<rparr>,
                  properties = [(''elevation'', JNum 3)]\<rparr>]"
  let ?fs = "[''in.geojson'' \<mapsto> FeatureCollection ?feats]"
  let ?a = "\<lparr>args.input_file = ''in.geojson'', elevation_property = ''elevation'',
             layer_type = Some ''GeoJsonLayer'', elevation_scale = 1,
             fill_color = [255, 0, 0], line_color = [0, 0, 255], auto_highlight = True,
             pickable = True, stroked = False, filled = True, wireframe = True,
             extruded = True, coverage = 1, pitch = 45, bearing = 0,
             output_file = ''out.html''\<rparr>"
  have h: "?fs (args.input_file ?a) = Some (FeatureCollection ?feats) \<and> ?feats \<noteq> []"
    by simp
  have "\<exists>fs' lay v.
          pydeckCLI_main ?fs ?a = Inr fs'
          \<and> fs' (args.output_file ?a) = Some (Html \<lparr>layers = [lay], initial_view_state = v\<rparr>)
          \<and> layer.extruded lay = args.stroked ?a
          \<and> layer.stroked lay = args.filled ?a
          \<and> layer.filled lay = args.wireframe ?a
          \<and> layer.wireframe lay = args.extruded ?a"
    using C5_flags_bound_to_shifted_parameters [of ?fs ?a ?feats] h by blast
  then show ?thesis
    by (simp only: args.select_convs)
qed

section \<open>\<^verbatim>\<open>show_properties.py\<close>: properties\<close>

lemma foldl_union_keys:
  "foldl (\<lambda>s f. s \<union> set (map fst (feature.properties f))) S fs
     = S \<union> (\<Union>f \<in> set fs. fst ` set (feature.properties f))"
  by (induction fs arbitrary: S) auto

lemma property_set_Union:
  "property_set fs = (\<Union>f \<in> set fs. fst ` set (feature.properties f))"
  unfolding property_set_def foldl_union_keys by simp

lemma finite_property_set: "finite (property_set fs)"
  by (simp add: property_set_Union)

lemma property_set_skip_empty:
  "property_set (xs @ \<lparr>geometry = g, properties = []\<rparr> # ys) = property_set (xs @ ys)"
  by (simp add: property_set_Union)

lemma list_properties_example:
  "list_properties
     [\<lparr>geometry = g1, properties = [(''a'', JNum 1), (''b'', JNum 2)]\<rparr>,
      \<lparr>geometry = g2, properties = [(''b'', JNum 3), (''c'', JNum 4)]\<rparr>]
   = [''a'', ''b'', ''c'']"
proof -
  have "property_set
     [\<lparr>geometry = g1, properties = [(''a'', JNum 1), (''b'', JNum 2)]\<rparr>,
      \<lparr>geometry = g2, properties = [(''b'', JNum 3), (''c'', JNum 4)]\<rparr>]
     = set [''a'', ''b'', ''c'']"
    by (auto simp: property_set_Union)
  moreover have "sorted [''a'', ''b'', ''c''] \<and> distinct [''a'', ''b'', ''c'']"
    by simp
  ultimately show ?thesis
    unfolding list_properties_def
    by (simp only: sorted_list_of_set.idem_if_sorted_distinct)
qed

lemma show_properties_loaded:
  "show_properties (fs(p \<mapsto> FeatureCollection feats)) p
     = Inr (''Available properties:'' # map (\<lambda>n. ''  - '' @ n) (list_properties feats))"
  by (simp add: show_properties_def load_features_def)

lemma list_properties_set:
  "set (list_properties feats) = (\<Union>f \<in> set feats. fst ` set (feature.properties f))"
  using finite_property_set [of feats]
  by (simp add: list_properties_def property_set_Union)

lemma list_properties_sorted_distinct:
  "sorted (list_properties feats)" "distinct (list_properties feats)"
  by (simp_all add: list_properties_def)

lemma list_properties_skip_empty:
  "list_properties (xs @ \<lparr>geometry = g, properties = []\<rparr> # ys) = list_properties (xs @ ys)"
  by (simp only: list_properties_def property_set_skip_empty)

lemma list_properties_Nil: "list_properties [] = []"
  by (simp add: list_properties_def property_set_def)

text \<open>
  Claim C8. On a file that holds a FeatureCollection, \<open>show_properties\<close> succeeds and
  prints, after the header line, the names that are exactly the union of the features'
  property keys, in ascending string order and without duplicates; a feature with no
  properties changes nothing of the output; for \<open>{a:1, b:2}\<close> and \<open>{b:3, c:4}\<close> the
  names are \<open>a\<close>, \<open>b\<close>, \<open>c\<close>; for no features the header is followed by no name, and
  there is no error.
\<close>

theorem C8_show_properties_sorted_union_of_keys:
  "(\<exists>names.
      show_properties (fs(p \<mapsto> FeatureCollection feats)) p
        = Inr (''Available properties:'' # map (\<lambda>n. ''  - '' @ n) names)
      \<and> names = list_properties feats
      \<and> set names = (\<Union>f \<in> set feats. fst ` set (feature.properties f))
      \<and> sorted names
      \<and> distinct names)
   \<and> show_properties
         (fs(p \<mapsto> FeatureCollection (xs @ \<lparr>geometry = g, properties = []\<rparr> # ys))) p
       = show_properties (fs(p \<mapsto> FeatureCollection (xs @ ys))) p
   \<and> show_properties
         (fs(p \<mapsto> FeatureCollection
            [\<lparr>geometry = g1, properties = [(''a'', JNum 1), (''b'', JNum 2)]\<rparr>,
             \<lparr>geometry = g2, properties = [(''b'', JNum 3), (''c'', JNum 4)]\<rparr>])) p
       = Inr [''Available properties:'', ''  - a'', ''  - b'', ''  - c'']
   \<and> list_properties
         [\<lparr>geometry = g1, properties = [(''a'', JNum 1), (''b'', JNum 2)]\<rparr>,
          \<lparr>geometry = g2, properties = [(''b'', JNum 3), (''c'', JNum 4)]\<rparr>]
       = [''a'', ''b'', ''c'']
   \<and> show_properties (fs(p \<mapsto> FeatureCollection [])) p = Inr [''Available properties:'']
   \<and> list_properties [] = []"
proof -
  have 1: "\<exists>names.
      show_properties (fs(p \<mapsto> FeatureCollection feats)) p
        = Inr (''Available properties:'' # map (\<lambda>n. ''  - '' @ n) names)
      \<and> names = list_properties feats
      \<and> set names = (\<Union>f \<in> set feats. fst ` set (feature.properties f))
      \<and> sorted names
      \<and> distinct names"
    using show_properties_loaded [of fs p feats] list_properties_set [of feats]
      list_properties_sorted_distinct [of feats]
    by blast
  have 2: "show_properties
         (fs(p \<mapsto> FeatureCollection (xs @ \<lparr>geometry = g, properties = []\<rparr> # ys))) p
       = show_properties (fs(p \<mapsto> FeatureCollection (xs @ ys))) p"
    by (simp only: show_properties_loaded list_properties_skip_empty)
  have 3: "show_properties
         (fs(p \<mapsto> FeatureCollection
            [\<lparr>geometry = g1, properties = [(''a'', JNum 1), (''b'', JNum 2)]\<rparr>,
             \<lparr>geometry = g2, properties = [(''b'', JNum 3), (''c'', JNum 4)]\<rparr>])) p
       = Inr [''Available properties:'', ''  - a'', ''  - b'', ''  - c'']"
    by (simp only: show_properties_loaded list_properties_example) simp
  have 5: "show_properties (fs(p \<mapsto> FeatureCollection [])) p = Inr [''Available properties:'']"
    by (simp only: show_properties_loaded list_properties_Nil) simp
  from 1 2 3 list_properties_example 5 list_properties_Nil show ?thesis
    by blast
qed

text \<open>
  Claim C9. With \<^verbatim>\<open>--properties\<close>, on an input file that holds a FeatureCollection,
  the script prints the line \<open>Available properties:\<close> and then the sorted property
  names, one per line, each after the prefix of two blanks, a hyphen and a blank.
  Without the flag it prints nothing (and does not even open the file).
\<close>

theorem C9_properties_flag_output:
  "show_properties_main (fs(p \<mapsto> FeatureCollection feats))
       \<lparr>show_args.input_file = p, properties = True\<rparr>
     = Inr (''Available properties:'' # map (\<lambda>n. ''  - '' @ n) (list_properties feats))
   \<and> sorted (list_properties feats)
   \<and> show_properties_main fs \<lparr>show_args.input_file = p, properties = False\<rparr> = Inr []
   \<and> show_properties_main
        [''in.geojson'' \<mapsto> FeatureCollection
           [\<lparr>geometry = g1, properties = [(''a'', JNum 1), (''b'', JNum 2)]\<rparr>,
            \<lparr>geometry = g2, properties = [(''b'', JNum 3), (''c'', JNum 4)]\<rparr>]]
        \<lparr>show_args.input_file = ''in.geojson'', properties = True\<rparr>
      = Inr [''Available properties:'', ''  - a'', ''  - b'', ''  - c'']"
proof -
  have 1: "show_properties_main (fs(p \<mapsto> FeatureCollection feats))
       \<lparr>show_args.input_file = p, properties = True\<rparr>
     = Inr (''Available properties:'' # map (\<lambda>n. ''  - '' @ n) (list_properties feats))"
    for fs p feats
    by (simp add: show_properties_main_def show_properties_def load_features_def)
  have 2: "sorted (list_properties feats)"
    by (simp add: list_properties_def)
  have 3: "show_properties_main fs \<lparr>show_args.input_file = p, properties = False\<rparr> = Inr []"
    by (simp add: show_properties_main_def)
  have 4: "show_properties_main
        [''in.geojson'' \<mapsto> FeatureCollection
           [\<lparr>geometry = g1, properties = [(''a'', JNum 1), (''b'', JNum 2)]\<rparr>,
            \<lparr>geometry = g2, properties = [(''b'', JNum 3), (''c'', JNum 4)]\<rparr>]]
        \<lparr>show_args.input_file = ''in.geojson'', properties = True\<rparr>
      = Inr [''Available properties:'', ''  - a'', ''  - b'', ''  - c'']"
    by (simp only: 1 list_properties_example) simp
  from 1 2 3 4 show ?thesis by blast
qed

end
